theory Spec2Isabelle
  imports Complex_Main "HOL-Library.Log_Nat"
begin

section \<open>Python values, dictionaries and exceptions\<close>

text \<open>
  The processors of the playlist exporter work on JSON-like data: a track and a playlist
  are dictionaries from field names to dynamically typed values. A value is \<open>None\<close>, a
  boolean, an integer (unbounded), a float, a string or a list.

  A float value of the input is finite (the JSON of the API has no other floats) and is
  represented by the rational number it denotes; the two zeros are one value, as they
  are equal in Python. The functions that copy a float or print it work for any rational;
  arithmetic on floats treats its operands as doubles and rounds to the nearest double,
  see the section on numbers.
  A string is a list of characters; Python iterates a string by code point, which is the
  same thing for ASCII text.
\<close>

datatype pyval =
    PNone
  | PBool bool
  | PInt int
  | PFloat rat
  | PStr string
  | PList "pyval list"

datatype py_error = TypeError | ValueError | OverflowError | ZeroDivisionError

type_synonym pydict = "string \<rightharpoonup> pyval"

text \<open>\<open>d.get(k, default)\<close>; \<open>d.get(k)\<close> is \<open>dict_get d k PNone\<close>. The default is used only when
  the key is absent: a key that is present with the value \<open>None\<close> yields \<open>None\<close>.\<close>

definition dict_get :: "pydict \<Rightarrow> string \<Rightarrow> pyval \<Rightarrow> pyval" where
  "dict_get d k dflt = (case d k of None \<Rightarrow> dflt | Some v \<Rightarrow> v)"

text \<open>Truth value testing (\<open>if x\<close>, \<open>not x\<close>).\<close>

fun py_truthy :: "pyval \<Rightarrow> bool" where
  "py_truthy PNone = False"
| "py_truthy (PBool b) = b"
| "py_truthy (PInt n) = (n \<noteq> 0)"
| "py_truthy (PFloat q) = (q \<noteq> 0)"
| "py_truthy (PStr s) = (s \<noteq> [])"
| "py_truthy (PList vs) = (vs \<noteq> [])"

text \<open>
  \<open>sep.join(x)\<close>: \<open>x\<close> must be iterable and every item a string, otherwise TypeError.
  A string is iterable, its items are its characters.
\<close>

fun str_items :: "pyval list \<Rightarrow> py_error + string list" where
  "str_items [] = Inr []"
| "str_items (PStr s # vs) =
     (case str_items vs of Inl e \<Rightarrow> Inl e | Inr ss \<Rightarrow> Inr (s # ss))"
| "str_items (v # vs) = Inl TypeError"

fun join_strs :: "string \<Rightarrow> string list \<Rightarrow> string" where
  "join_strs sep [] = []"
| "join_strs sep [s] = s"
| "join_strs sep (s # t # ss) = s @ sep @ join_strs sep (t # ss)"

fun py_join :: "string \<Rightarrow> pyval \<Rightarrow> py_error + string" where
  "py_join sep (PStr s) = Inr (join_strs sep (map (\<lambda>c. [c]) s))"
| "py_join sep (PList vs) =
     (case str_items vs of Inl e \<Rightarrow> Inl e | Inr ss \<Rightarrow> Inr (join_strs sep ss))"
| "py_join sep v = Inl TypeError"

subsection \<open>Decimal text of integers\<close>

definition digit_char :: "nat \<Rightarrow> char" where
  "digit_char n = ''0123456789'' ! n"

function str_of_nat :: "nat \<Rightarrow> string" where
  "str_of_nat n = (if n < 10 then [digit_char n] else str_of_nat (n div 10) @ [digit_char (n mod 10)])"
  by pat_completeness auto
termination
  by (relation "measure id") auto

declare str_of_nat.simps [simp del]

definition str_of_int :: "int \<Rightarrow> string" where
  "str_of_int i = (if i < 0 then CHR ''-'' # str_of_nat (nat (- i)) else str_of_nat (nat i))"

section \<open>The date library\<close>

text \<open>
  \<open>_format_date\<close> calls \<open>datetime.fromisoformat\<close>, \<open>datetime.strptime\<close> and
  \<open>datetime.strftime\<close> of the Python standard library. \<open>strptime\<close> and \<open>strftime\<close> are
  modelled here for the three formats the program uses. \<open>fromisoformat\<close> is not modelled:
  the strings it accepts differ from one version of the library to the next, so it is a
  parameter of \<open>_format_date\<close> and of the functions that call it. A parse failure
  (ValueError in Python) is \<open>None\<close>.
\<close>

record datetime =
  year :: nat
  month :: nat
  day :: nat
  hour :: nat
  minute :: nat
  second :: nat

definition is_digit :: "char \<Rightarrow> bool" where
  "is_digit c = (48 \<le> (of_char c :: nat) \<and> (of_char c :: nat) \<le> 57)"

definition digit_val :: "char \<Rightarrow> nat" where
  "digit_val c = of_char c - 48"

definition nat_of_digits :: "string \<Rightarrow> nat" where
  "nat_of_digits s = foldl (\<lambda>n c. 10 * n + digit_val c) 0 s"

definition is_leap :: "nat \<Rightarrow> bool" where
  "is_leap y = (y mod 4 = 0 \<and> (y mod 100 \<noteq> 0 \<or> y mod 400 = 0))"

definition days_in_month :: "nat \<Rightarrow> nat \<Rightarrow> nat" where
  "days_in_month y m =
     (if m = 2 then (if is_leap y then 29 else 28)
      else if m = 4 \<or> m = 6 \<or> m = 9 \<or> m = 11 then 30 else 31)"

text \<open>The checks of the \<open>datetime\<close> constructor: years 1 to 9999, a day that exists.\<close>

definition valid_date :: "nat \<Rightarrow> nat \<Rightarrow> nat \<Rightarrow> bool" where
  "valid_date y m d =
     (1 \<le> y \<and> y \<le> 9999 \<and> 1 \<le> m \<and> m \<le> 12 \<and> 1 \<le> d \<and> d \<le> days_in_month y m)"

text \<open>
  A format is a list of directives: \<open>%Y\<close>, \<open>%m\<close>, \<open>%d\<close> and literal characters.
  \<open>strptime\<close> turns each directive into a regular expression and matches the input
  from its start:
  \<open>%Y\<close> is \<open>\d\d\d\d\<close>, \<open>%m\<close> is \<open>1[0-2]|0[1-9]|[1-9]\<close> and
  \<open>%d\<close> is \<open>3[0-1]|[1-2]\d|0[1-9]|[1-9]| [1-9]\<close>.
  \<open>directive_alts\<close> lists the ways a directive matches a prefix of the input, in the
  order of the alternatives, each with the fields it sets and the rest of the input.
\<close>

datatype directive = DYear | DMonth | DDay | DLit char

type_synonym ymd = "nat \<times> nat \<times> nat"

definition two_char_alt :: "(char \<Rightarrow> bool) \<Rightarrow> (char \<Rightarrow> bool) \<Rightarrow> string \<Rightarrow> (nat \<times> string) list" where
  "two_char_alt p q s =
     (case s of
        a # b # rest \<Rightarrow> (if p a \<and> q b then [(nat_of_digits (filter is_digit [a, b]), rest)] else [])
      | _ \<Rightarrow> [])"

definition one_char_alt :: "(char \<Rightarrow> bool) \<Rightarrow> string \<Rightarrow> (nat \<times> string) list" where
  "one_char_alt p s =
     (case s of a # rest \<Rightarrow> (if p a then [(digit_val a, rest)] else []) | _ \<Rightarrow> [])"

definition char_in :: "string \<Rightarrow> char \<Rightarrow> bool" where
  "char_in cs c = (c \<in> set cs)"

definition month_alts :: "string \<Rightarrow> (nat \<times> string) list" where
  "month_alts s =
     two_char_alt (char_in ''1'') (char_in ''012'') s
     @ two_char_alt (char_in ''0'') (char_in ''123456789'') s
     @ one_char_alt (char_in ''123456789'') s"

definition day_alts :: "string \<Rightarrow> (nat \<times> string) list" where
  "day_alts s =
     two_char_alt (char_in ''3'') (char_in ''01'') s
     @ two_char_alt (char_in ''12'') is_digit s
     @ two_char_alt (char_in ''0'') (char_in ''123456789'') s
     @ one_char_alt (char_in ''123456789'') s
     @ two_char_alt (char_in '' '') (char_in ''123456789'') s"

definition year_alts :: "string \<Rightarrow> (nat \<times> string) list" where
  "year_alts s =
     (if 4 \<le> length s \<and> list_all is_digit (take 4 s)
      then [(nat_of_digits (take 4 s), drop 4 s)] else [])"

fun directive_alts :: "directive \<Rightarrow> string \<Rightarrow> ymd \<Rightarrow> (ymd \<times> string) list" where
  "directive_alts DYear s (y, m, d) = map (\<lambda>(v, rest). ((v, m, d), rest)) (year_alts s)"
| "directive_alts DMonth s (y, m, d) = map (\<lambda>(v, rest). ((y, v, d), rest)) (month_alts s)"
| "directive_alts DDay s (y, m, d) = map (\<lambda>(v, rest). ((y, m, v), rest)) (day_alts s)"
| "directive_alts (DLit c) s acc =
     (case s of a # rest \<Rightarrow> (if a = c then [(acc, rest)] else []) | _ \<Rightarrow> [])"

fun first_some :: "'a option list \<Rightarrow> 'a option" where
  "first_some [] = None"
| "first_some (None # xs) = first_some xs"
| "first_some (Some x # xs) = Some x"

text \<open>The regular expression match: the first way, in the order of the alternatives,
  in which the whole format matches a prefix of the input.\<close>

fun match_format :: "directive list \<Rightarrow> string \<Rightarrow> ymd \<Rightarrow> (ymd \<times> string) option" where
  "match_format [] s acc = Some (acc, s)"
| "match_format (f # fs) s acc =
     first_some (map (\<lambda>(acc', rest). match_format fs rest acc') (directive_alts f s acc))"

text \<open>\<open>datetime.strptime(s, fmt)\<close>: no match, input left over after the match
  (``unconverted data remains'') and a date that does not exist are ValueError.\<close>

definition strptime :: "string \<Rightarrow> directive list \<Rightarrow> datetime option" where
  "strptime s fmt =
     (case match_format fmt s (1900, 1, 1) of
        None \<Rightarrow> None
      | Some ((y, m, d), rest) \<Rightarrow>
          (if rest \<noteq> [] then None
           else if valid_date y m d
           then Some \<lparr>year = y, month = m, day = d, hour = 0, minute = 0, second = 0\<rparr>
           else None))"

text \<open>
  \<open>dt.strftime(fmt)\<close>: the C library prints \<open>%Y\<close> as the decimal number of the year, which
  glibc does not pad (a year below 1000 has fewer than four digits), and \<open>%m\<close> and \<open>%d\<close>
  with two digits.
\<close>

definition zfill :: "nat \<Rightarrow> string \<Rightarrow> string" where
  "zfill w s = replicate (w - length s) CHR ''0'' @ s"

fun strftime_directive :: "datetime \<Rightarrow> directive \<Rightarrow> string" where
  "strftime_directive dt DYear = str_of_nat (year dt)"
| "strftime_directive dt DMonth = zfill 2 (str_of_nat (month dt))"
| "strftime_directive dt DDay = zfill 2 (str_of_nat (day dt))"
| "strftime_directive dt (DLit c) = [c]"

definition strftime :: "datetime \<Rightarrow> directive list \<Rightarrow> string" where
  "strftime dt fmt = concat (map (strftime_directive dt) fmt)"

text \<open>The formats of the program: \<open>'%Y-%m-%d'\<close>, \<open>'%m/%d/%Y'\<close> and \<open>'%d/%m/%Y'\<close>.\<close>

definition fmt_Y_m_d :: "directive list" where
  "fmt_Y_m_d = [DYear, DLit CHR ''-'', DMonth, DLit CHR ''-'', DDay]"

definition fmt_m_d_Y :: "directive list" where
  "fmt_m_d_Y = [DMonth, DLit CHR ''/'', DDay, DLit CHR ''/'', DYear]"

definition fmt_d_m_Y :: "directive list" where
  "fmt_d_m_Y = [DDay, DLit CHR ''/'', DMonth, DLit CHR ''/'', DYear]"

text \<open>\<open>s.replace('Z', '+00:00')\<close>: every \<open>Z\<close> of the string is replaced.\<close>

definition replace_Z :: "string \<Rightarrow> string" where
  "replace_Z s = concat (map (\<lambda>c. if c = CHR ''Z'' then ''+00:00'' else [c]) s)"

section \<open>The data processor\<close>

subsection \<open>\<open>DataProcessor._format_date\<close>\<close>

text \<open>The loop over the three formats: the first format that parses gives the result.\<close>

fun try_formats :: "string \<Rightarrow> directive list list \<Rightarrow> string option" where
  "try_formats s [] = None"
| "try_formats s (fmt # fmts) =
     (case strptime s fmt of
        Some dt \<Rightarrow> Some (strftime dt fmt_Y_m_d)
      | None \<Rightarrow> try_formats s fmts)"

text \<open>
  The first argument is the library's \<open>datetime.fromisoformat\<close>.
  A falsy argument (\<open>None\<close>, \<open>''\<close>, \<open>0\<close>, \<open>[]\<close>) gives \<open>'Unknown'\<close>. For a string the
  ISO branch is taken when it contains \<open>T\<close>; a failure of \<open>fromisoformat\<close> there is caught
  by the outer handler, which returns the argument. For a truthy value that is not a
  string, \<open>'T' in date_string\<close>, \<open>date_string.replace\<close> or \<open>strptime\<close> raises
  (TypeError or AttributeError) and the outer handler returns the argument as well.
\<close>

definition format_date :: "(string \<Rightarrow> datetime option) \<Rightarrow> pyval \<Rightarrow> pyval" where
  "format_date fromisoformat date_string =
     (if \<not> py_truthy date_string then PStr ''Unknown''
      else case date_string of
        PStr s \<Rightarrow>
          (if CHR ''T'' \<in> set s then
             (case fromisoformat (replace_Z s) of
                Some dt \<Rightarrow> PStr (strftime dt fmt_Y_m_d)
              | None \<Rightarrow> date_string)
           else
             (case try_formats s [fmt_Y_m_d, fmt_m_d_Y, fmt_d_m_Y] of
                Some r \<Rightarrow> PStr r
              | None \<Rightarrow> date_string))
      | _ \<Rightarrow> date_string)"

subsection \<open>\<open>DataProcessor._standardize_track\<close> and \<open>DataProcessor.process_tracks\<close>\<close>

text \<open>
  The canonical record is the dictionary literal of the source, entry by entry. The only
  expression of the literal that can raise is the \<open>join\<close> of the artists (TypeError when
  the value is not iterable or an item is not a string); \<open>_format_date\<close> catches its own
  exceptions. The result is \<open>Inl\<close> the exception, or \<open>Inr\<close> the record. The first argument
  is the library's \<open>datetime.fromisoformat\<close>, handed on to \<open>_format_date\<close>.
\<close>

definition standardize_track :: "(string \<Rightarrow> datetime option) \<Rightarrow> pydict \<Rightarrow> py_error + pydict" where
  "standardize_track fromisoformat track =
     (case py_join '', '' (dict_get track ''artists'' (PList [PStr ''Unknown Artist''])) of
        Inl e \<Rightarrow> Inl e
      | Inr artists \<Rightarrow> Inr (map_of [
          (''track_name'', dict_get track ''name'' (PStr ''Unknown'')),
          (''artists'', PStr artists),
          (''album_name'', dict_get track ''album_name'' (PStr ''Unknown Album'')),
          (''duration'', dict_get track ''duration_formatted'' (PStr ''0:00'')),
          (''duration_ms'', dict_get track ''duration_ms'' (PInt 0)),
          (''date_added'', format_date fromisoformat (dict_get track ''added_at'' (PStr []))),
          (''release_year'', dict_get track ''release_year'' (PStr ''Unknown'')),
          (''popularity'', dict_get track ''popularity'' (PInt 0)),
          (''explicit'', dict_get track ''explicit'' (PBool False)),
          (''streams'', dict_get track ''streams'' (PStr ''N/A'')),
          (''track_number'', dict_get track ''track_number'' (PInt 0)),
          (''danceability'', dict_get track ''danceability'' (PStr ''N/A'')),
          (''energy'', dict_get track ''energy'' (PStr ''N/A'')),
          (''valence'', dict_get track ''valence'' (PStr ''N/A'')),
          (''tempo'', dict_get track ''tempo'' (PStr ''N/A'')),
          (''acousticness'', dict_get track ''acousticness'' (PStr ''N/A'')),
          (''instrumentalness'', dict_get track ''instrumentalness'' (PStr ''N/A'')),
          (''liveness'', dict_get track ''liveness'' (PStr ''N/A'')),
          (''speechiness'', dict_get track ''speechiness'' (PStr ''N/A'')),
          (''loudness'', dict_get track ''loudness'' (PStr ''N/A'')),
          (''key'', dict_get track ''key'' (PStr ''N/A'')),
          (''mode'', dict_get track ''mode'' (PStr ''N/A'')),
          (''time_signature'', dict_get track ''time_signature'' (PStr ''N/A''))]))"

text \<open>
  The log of \<open>process_tracks\<close>: a warning carries the name of the track (the value of
  \<open>track.get('name', 'Unknown')\<close>) and the exception, the final message the number of
  processed tracks.
\<close>

datatype log_entry = LogWarning pyval py_error | LogInfo nat

text \<open>
  The loop over \<open>tracks_data\<close>, with the list \<open>processed_tracks\<close> and the log as its
  state. A track that raises is logged and skipped (\<open>continue\<close>). The handler itself calls
  \<open>track.get\<close> on a dictionary and formats a message, which do not raise.
\<close>

fun process_tracks_loop ::
  "(string \<Rightarrow> datetime option) \<Rightarrow> pydict list \<Rightarrow> pydict list \<Rightarrow> log_entry list
     \<Rightarrow> pydict list \<times> log_entry list" where
  "process_tracks_loop fromisoformat [] processed_tracks logged = (processed_tracks, logged)"
| "process_tracks_loop fromisoformat (track # rest) processed_tracks logged =
     (case standardize_track fromisoformat track of
        Inr processed_track \<Rightarrow>
          process_tracks_loop fromisoformat rest (processed_tracks @ [processed_track]) logged
      | Inl e \<Rightarrow>
          process_tracks_loop fromisoformat rest processed_tracks
            (logged @ [LogWarning (dict_get track ''name'' (PStr ''Unknown'')) e]))"

text \<open>\<open>process_tracks\<close> takes the playlist and does not read it.\<close>

definition process_tracks ::
  "(string \<Rightarrow> datetime option) \<Rightarrow> pydict list \<Rightarrow> pydict \<Rightarrow> pydict list \<times> log_entry list" where
  "process_tracks fromisoformat tracks_data playlist_data =
     (case process_tracks_loop fromisoformat tracks_data [] [] of
        (processed_tracks, logged) \<Rightarrow>
          (processed_tracks, logged @ [LogInfo (length processed_tracks)]))"

subsection \<open>Numbers\<close>

text \<open>
  The numeric values of Python: integers (a boolean counts as the integer 0 or 1) and
  floats. A float is an IEEE 754 double: a finite one is represented by the rational
  number it denotes, and arithmetic can also produce the two infinities and NaN.
\<close>

datatype pyfloat = Finite rat | PosInf | NegInf | NaN

datatype num = NInt int | NFloat pyfloat

fun as_num :: "pyval \<Rightarrow> num option" where
  "as_num (PBool b) = Some (NInt (if b then 1 else 0))"
| "as_num (PInt n) = Some (NInt n)"
| "as_num (PFloat q) = Some (NFloat (Finite q))"
| "as_num v = None"

text \<open>
  Rounding to the nearest double, ties to the even significand (the rounding of every
  float operation of the interpreter). \<open>pow2 e\<close> is 2 to the power \<open>e\<close>; \<open>floor_log2 x\<close>,
  for a positive \<open>x\<close>, is the exponent \<open>e\<close> with \<open>pow2 e \<le> x < pow2 (e + 1)\<close>. The doubles
  from \<open>pow2 e\<close> to \<open>pow2 (e + 1)\<close> are the multiples of \<open>pow2 (e - 52)\<close> (a significand of
  53 bits); below \<open>pow2 (- 1022)\<close> they are the multiples of \<open>pow2 (- 1074)\<close>. A rounded
  value of magnitude \<open>pow2 1024\<close> or more is an overflow, \<open>None\<close>.
\<close>

definition round_half_even :: "rat \<Rightarrow> int" where
  "round_half_even q =
     (let f = \<lfloor>q\<rfloor>; r = q - of_int f in
      if r < 1 / 2 then f else if 1 / 2 < r then f + 1 else if even f then f else f + 1)"

definition pow2 :: "int \<Rightarrow> rat" where
  "pow2 e = (if 0 \<le> e then 2 ^ nat e else 1 / 2 ^ nat (- e))"

definition floor_log2 :: "rat \<Rightarrow> int" where
  "floor_log2 x =
     (case quotient_of x of (p, q) \<Rightarrow>
        (let e = bitlen p - bitlen q in if pow2 e \<le> x then e else e - 1))"

definition float_spacing :: "rat \<Rightarrow> rat" where
  "float_spacing x = pow2 (max (floor_log2 \<bar>x\<bar>) (- 1022) - 52)"

definition round_to_double :: "rat \<Rightarrow> rat option" where
  "round_to_double x =
     (if x = 0 then Some 0
      else (let d = of_int (round_half_even (x / float_spacing x)) * float_spacing x
            in if pow2 1024 \<le> \<bar>d\<bar> then None else Some d))"

text \<open>
  The result of a float operation whose exact value is \<open>x\<close>: an overflow gives the
  infinity of the sign of \<open>x\<close>. The conversion of an integer to a float
  (\<open>PyLong_AsDouble\<close>) gives a finite double or raises OverflowError.
\<close>

definition fl_round :: "rat \<Rightarrow> pyfloat" where
  "fl_round x =
     (case round_to_double x of
        Some d \<Rightarrow> Finite d
      | None \<Rightarrow> (if 0 < x then PosInf else NegInf))"

definition fl_of_int :: "int \<Rightarrow> py_error + rat" where
  "fl_of_int i =
     (case round_to_double (of_int i) of
        Some d \<Rightarrow> Inr d
      | None \<Rightarrow> Inl OverflowError)"

fun fl_neg :: "pyfloat \<Rightarrow> pyfloat" where
  "fl_neg (Finite a) = Finite (- a)"
| "fl_neg PosInf = NegInf"
| "fl_neg NegInf = PosInf"
| "fl_neg NaN = NaN"

fun fl_add :: "pyfloat \<Rightarrow> pyfloat \<Rightarrow> pyfloat" where
  "fl_add (Finite a) (Finite b) = fl_round (a + b)"
| "fl_add NaN b = NaN"
| "fl_add a NaN = NaN"
| "fl_add PosInf NegInf = NaN"
| "fl_add NegInf PosInf = NaN"
| "fl_add PosInf b = PosInf"
| "fl_add NegInf b = NegInf"
| "fl_add (Finite a) b = b"

definition fl_sub :: "pyfloat \<Rightarrow> pyfloat \<Rightarrow> pyfloat" where
  "fl_sub a b = fl_add a (fl_neg b)"

text \<open>Division by a finite double \<open>w\<close> that is positive, as the divisors of this program
  are: the constants 1000, 3600 and 60 and the length of a non-empty list.\<close>

fun fl_div :: "pyfloat \<Rightarrow> rat \<Rightarrow> pyfloat" where
  "fl_div (Finite a) w = fl_round (a / w)"
| "fl_div a w = a"

fun fl_floor :: "pyfloat \<Rightarrow> pyfloat" where
  "fl_floor (Finite a) = Finite (of_int \<lfloor>a\<rfloor>)"
| "fl_floor a = a"

text \<open>\<open>a < b\<close> on floats: false when an operand is NaN.\<close>

fun fl_less :: "pyfloat \<Rightarrow> pyfloat \<Rightarrow> bool" where
  "fl_less (Finite a) (Finite b) = (a < b)"
| "fl_less NaN b = False"
| "fl_less a NaN = False"
| "fl_less a NegInf = False"
| "fl_less PosInf b = False"
| "fl_less a PosInf = True"
| "fl_less NegInf b = True"

text \<open>
  \<open>a + b\<close>. Two integers add exactly. When one operand is a float the integer operand is
  converted first (OverflowError when it is too large), and the sum is rounded.
  \<open>sum\<close> (Python 3.11) starts from the integer 0, adds the items from left to right and
  raises TypeError at the first item that is not a number.
\<close>

fun num_add :: "num \<Rightarrow> num \<Rightarrow> py_error + num" where
  "num_add (NInt a) (NInt b) = Inr (NInt (a + b))"
| "num_add (NInt a) (NFloat b) =
     (case fl_of_int a of Inl e \<Rightarrow> Inl e | Inr a' \<Rightarrow> Inr (NFloat (fl_add (Finite a') b)))"
| "num_add (NFloat a) (NInt b) =
     (case fl_of_int b of Inl e \<Rightarrow> Inl e | Inr b' \<Rightarrow> Inr (NFloat (fl_add a (Finite b'))))"
| "num_add (NFloat a) (NFloat b) = Inr (NFloat (fl_add a b))"

fun py_sum_from :: "num \<Rightarrow> pyval list \<Rightarrow> py_error + num" where
  "py_sum_from acc [] = Inr acc"
| "py_sum_from acc (v # vs) =
     (case as_num v of
        None \<Rightarrow> Inl TypeError
      | Some n \<Rightarrow> (case num_add acc n of Inl e \<Rightarrow> Inl e | Inr acc' \<Rightarrow> py_sum_from acc' vs))"

definition py_sum :: "pyval list \<Rightarrow> py_error + num" where
  "py_sum vs = py_sum_from (NInt 0) vs"

text \<open>
  \<open>x // k\<close> and \<open>x % k\<close> for a positive integer constant \<open>k\<close>. On integers they are the
  floor of the quotient and the remainder with the sign of \<open>k\<close>. On a float they are
  \<open>float_floor_div\<close> and \<open>float_rem\<close> of the interpreter, which compute on doubles, \<open>wx\<close>
  being \<open>k\<close> as a double: \<open>mod = fmod(vx, wx)\<close> is exact and has the sign of \<open>vx\<close>;
  \<open>div = (vx - mod) / wx\<close>; when \<open>mod\<close> is not zero and its sign is not that of \<open>wx\<close>,
  \<open>mod += wx\<close> and \<open>div -= 1.0\<close>; then the quotient is \<open>floor(div)\<close>, plus \<open>1.0\<close> when
  \<open>div - floor(div) > 0.5\<close>, and zero when \<open>div\<close> is zero. Every operation but \<open>fmod\<close> and
  \<open>floor\<close> rounds. For an infinite or NaN \<open>vx\<close>, \<open>fmod\<close> is NaN and so are both results.
\<close>

definition fmod :: "rat \<Rightarrow> rat \<Rightarrow> rat" where
  "fmod vx wx = vx - wx * of_int (let q = vx / wx in if 0 \<le> q then \<lfloor>q\<rfloor> else \<lceil>q\<rceil>)"

fun float_div_mod :: "pyfloat \<Rightarrow> rat \<Rightarrow> pyfloat \<times> pyfloat" where
  "float_div_mod (Finite vx) wx =
     (let md = Finite (fmod vx wx);
          dv = fl_div (fl_sub (Finite vx) md) wx;
          adjust = (md \<noteq> Finite 0 \<and> ((wx < 0) \<noteq> fl_less md (Finite 0)));
          md' = (if adjust then fl_add md (Finite wx) else md);
          dv' = (if adjust then fl_sub dv (Finite 1) else dv);
          floordiv =
            (if dv' \<noteq> Finite 0 then
               (let fd = fl_floor dv' in
                if fl_less (Finite (1 / 2)) (fl_sub dv' fd) then fl_add fd (Finite 1) else fd)
             else Finite 0)
      in (floordiv, md'))"
| "float_div_mod vx wx = (NaN, NaN)"

fun num_floordiv :: "num \<Rightarrow> int \<Rightarrow> num" where
  "num_floordiv (NInt a) k = NInt (a div k)"
| "num_floordiv (NFloat vx) k = NFloat (fst (float_div_mod vx (of_int k)))"

fun num_mod :: "num \<Rightarrow> int \<Rightarrow> num" where
  "num_mod (NInt a) k = NInt (a mod k)"
| "num_mod (NFloat vx) k = NFloat (snd (float_div_mod vx (of_int k)))"

text \<open>\<open>x > 0\<close>\<close>

fun num_pos :: "num \<Rightarrow> bool" where
  "num_pos (NInt a) = (0 < a)"
| "num_pos (NFloat a) = fl_less (Finite 0) a"

text \<open>
  \<open>x / n\<close>, true division by the length \<open>n\<close> of a list, which the program guards to be
  positive. The quotient of two integers is the double nearest to the exact quotient
  (\<open>long_true_divide\<close>), OverflowError when that is out of range. For a float \<open>x\<close> the
  length is converted first and the quotient of the two doubles is rounded.
\<close>

definition num_truediv :: "num \<Rightarrow> nat \<Rightarrow> py_error + num" where
  "num_truediv x n =
     (if n = 0 then Inl ZeroDivisionError
      else case x of
        NInt a \<Rightarrow>
          (case round_to_double (of_int a / of_nat n) of
             Some d \<Rightarrow> Inr (NFloat (Finite d))
           | None \<Rightarrow> Inl OverflowError)
      | NFloat a \<Rightarrow>
          (case fl_of_int (int n) of
             Inl e \<Rightarrow> Inl e
           | Inr w \<Rightarrow> Inr (NFloat (fl_div a w))))"

text \<open>
  \<open>str(x)\<close>, as an f-string prints a value. The text of a finite float and of a list is
  made by the interpreter's \<open>repr\<close> (shortest round-trip digits of a double, quoting of
  the items of a list); it is a parameter of the functions that print values.
\<close>

type_synonym py_repr = "pyval \<Rightarrow> string"

fun py_str :: "py_repr \<Rightarrow> pyval \<Rightarrow> string" where
  "py_str repr PNone = ''None''"
| "py_str repr (PBool b) = (if b then ''True'' else ''False'')"
| "py_str repr (PInt n) = str_of_int n"
| "py_str repr (PStr s) = s"
| "py_str repr v = repr v"

fun num_str :: "py_repr \<Rightarrow> num \<Rightarrow> string" where
  "num_str repr (NInt a) = str_of_int a"
| "num_str repr (NFloat (Finite q)) = repr (PFloat q)"
| "num_str repr (NFloat PosInf) = ''inf''"
| "num_str repr (NFloat NegInf) = ''-inf''"
| "num_str repr (NFloat NaN) = ''nan''"

subsection \<open>\<open>DataProcessor.calculate_total_duration\<close>\<close>

definition calculate_total_duration :: "py_repr \<Rightarrow> pydict list \<Rightarrow> py_error + string" where
  "calculate_total_duration repr tracks_data =
     (case py_sum (map (\<lambda>track. dict_get track ''duration_ms'' (PInt 0)) tracks_data) of
        Inl e \<Rightarrow> Inl e
      | Inr total_ms \<Rightarrow>
          (let total_seconds = num_floordiv total_ms 1000;
               hours = num_floordiv total_seconds 3600;
               minutes = num_floordiv (num_mod total_seconds 3600) 60;
               seconds = num_mod total_seconds 60
           in Inr (if num_pos hours then
                     num_str repr hours @ ''h '' @ num_str repr minutes @ ''m ''
                       @ num_str repr seconds @ ''s''
                   else if num_pos minutes then
                     num_str repr minutes @ ''m '' @ num_str repr seconds @ ''s''
                   else num_str repr seconds @ ''s'')))"

subsection \<open>\<open>DataProcessor.get_data_summary\<close>\<close>

text \<open>The summary dictionary has seven fixed keys; it is a record here.\<close>

record summary =
  playlist_name :: pyval
  total_tracks_extracted :: nat
  total_duration :: string
  avg_popularity :: num
  explicit_tracks :: nat
  tracks_with_release_year :: nat
  tracks_with_audio_features :: nat

text \<open>\<open>sum(...) / len(tracks_data) if tracks_data else 0\<close>: the integer 0 for no tracks.\<close>

definition average_popularity :: "pydict list \<Rightarrow> py_error + num" where
  "average_popularity tracks_data =
     (if tracks_data = [] then Inr (NInt 0)
      else case py_sum (map (\<lambda>track. dict_get track ''popularity'' (PInt 0)) tracks_data) of
        Inl e \<Rightarrow> Inl e
      | Inr popularity_sum \<Rightarrow> num_truediv popularity_sum (length tracks_data))"

text \<open>
  The entries are evaluated in the order of the literal: the total duration, then the
  average, can raise (TypeError or OverflowError of \<open>sum\<close>, OverflowError of the
  division); the three counts test truth values and \<open>is not None\<close>, which do not raise.
\<close>

definition get_data_summary :: "py_repr \<Rightarrow> pydict \<Rightarrow> pydict list \<Rightarrow> py_error + summary" where
  "get_data_summary repr playlist_data tracks_data =
     (case calculate_total_duration repr tracks_data of
        Inl e \<Rightarrow> Inl e
      | Inr duration \<Rightarrow>
          (case average_popularity tracks_data of
             Inl e \<Rightarrow> Inl e
           | Inr avg \<Rightarrow> Inr \<lparr>
               playlist_name = dict_get playlist_data ''name'' (PStr ''Unknown''),
               total_tracks_extracted = length tracks_data,
               total_duration = duration,
               avg_popularity = avg,
               explicit_tracks =
                 length (filter (\<lambda>track. py_truthy (dict_get track ''explicit'' (PBool False))) tracks_data),
               tracks_with_release_year =
                 length (filter (\<lambda>track. py_truthy (dict_get track ''release_year'' PNone)) tracks_data),
               tracks_with_audio_features =
                 length (filter (\<lambda>track. dict_get track ''danceability'' PNone \<noteq> PNone) tracks_data)\<rparr>))"

subsection \<open>The metadata header of \<open>DataProcessor.create_csv\<close>\<close>

text \<open>
  The first block of the CSV document: the \<open>output.write\<close> calls that come before
  \<open>TRACKS DATA\<close>. Each value is pasted into an f-string as it is; the description is
  put between two double quotes. The time of the extraction is read from the clock and
  is a parameter here.
\<close>

definition newline :: string where
  "newline = [CHR 0x0A]"

definition dquote :: char where
  "dquote = CHR 0x22"

definition create_csv_metadata :: "py_repr \<Rightarrow> pydict \<Rightarrow> pydict list \<Rightarrow> string \<Rightarrow> string" where
  "create_csv_metadata repr playlist_data tracks_data now =
     ''PLAYLIST METADATA'' @ newline
     @ ''Name,'' @ py_str repr (dict_get playlist_data ''name'' (PStr ''Unknown Playlist'')) @ newline
     @ ''Description,'' @ [dquote] @ py_str repr (dict_get playlist_data ''description'' (PStr []))
         @ [dquote] @ newline
     @ ''Total Saves/Followers,'' @ py_str repr (dict_get playlist_data ''followers'' (PInt 0)) @ newline
     @ ''Number of Songs,''
         @ py_str repr (dict_get playlist_data ''total_tracks'' (PInt (int (length tracks_data))))
         @ newline
     @ ''Total Duration,'' @ py_str repr (dict_get playlist_data ''total_duration'' (PStr ''Unknown''))
         @ newline
     @ ''URL,'' @ py_str repr (dict_get playlist_data ''external_url'' (PStr [])) @ newline
     @ ''Extracted on,'' @ now @ newline
     @ newline"

text \<open>The lines of a text, as a file iterator yields them (without the line ends).\<close>

fun lines_from :: "string \<Rightarrow> string \<Rightarrow> string list" where
  "lines_from cur [] = (if cur = [] then [] else [cur])"
| "lines_from cur (c # cs) =
     (if c = CHR 0x0A then cur # lines_from [] cs else lines_from (cur @ [c]) cs)"

definition text_lines :: "string \<Rightarrow> string list" where
  "text_lines s = lines_from [] s"

text \<open>
  The standard delimited-text rules, as \<open>csv.writer\<close> and \<open>csv.reader\<close> apply them with
  their defaults (delimiter comma, quote character double quote, doubled quotes).
  The writer, which \<open>create_csv\<close> uses for the track rows, quotes a field that holds the
  delimiter, a quote or a line end, and doubles the quotes in it.
  The reader is a state machine over the characters of a line (a line without line ends
  here; a quoted field still open at the end of the line ends there).
\<close>

definition csv_quote_field :: "string \<Rightarrow> string" where
  "csv_quote_field s =
     (if CHR '','' \<in> set s \<or> dquote \<in> set s \<or> CHR 0x0A \<in> set s \<or> CHR 0x0D \<in> set s
      then [dquote] @ concat (map (\<lambda>c. if c = dquote then [dquote, dquote] else [c]) s) @ [dquote]
      else s)"

datatype reader_state = StartField | InField | InQuotedField | QuoteInQuotedField

fun csv_fields :: "reader_state \<Rightarrow> string \<Rightarrow> string \<Rightarrow> string list" where
  "csv_fields st field [] = [field]"
| "csv_fields StartField field (c # cs) =
     (if c = dquote then csv_fields InQuotedField [] cs
      else if c = CHR '','' then field # csv_fields StartField [] cs
      else csv_fields InField [c] cs)"
| "csv_fields InField field (c # cs) =
     (if c = CHR '','' then field # csv_fields StartField [] cs
      else csv_fields InField (field @ [c]) cs)"
| "csv_fields InQuotedField field (c # cs) =
     (if c = dquote then csv_fields QuoteInQuotedField field cs
      else csv_fields InQuotedField (field @ [c]) cs)"
| "csv_fields QuoteInQuotedField field (c # cs) =
     (if c = dquote then csv_fields InQuotedField (field @ [dquote]) cs
      else if c = CHR '','' then field # csv_fields StartField [] cs
      else csv_fields InField (field @ [c]) cs)"

definition csv_read_line :: "string \<Rightarrow> string list" where
  "csv_read_line s = (if s = [] then [] else csv_fields StartField [] s)"

section \<open>The Excel processor\<close>

subsection \<open>\<open>ExcelProcessor._format_feature\<close>\<close>

text \<open>
  \<open>round(x, 3)\<close>: an integer is returned as it is (a boolean as the integer it counts
  as); a float is rounded to the nearest multiple of 1/1000, a tie to the even one.
  \<open>round3\<close> is that multiple itself, the decimal with three places that the result
  prints as; the double that Python returns is the one nearest to it.
\<close>

definition round3 :: "rat \<Rightarrow> rat" where
  "round3 q = of_int (round_half_even (q * 1000)) / 1000"


subsection \<open>\<open>ExcelProcessor._create_audio_features_sheet\<close>\<close>






text \<open>\<open>track.get('danceability') not in [None, 'N/A']\<close>\<close>

definition has_real_danceability :: "pydict \<Rightarrow> bool" where
  "has_real_danceability track = (dict_get track ''danceability'' PNone \<notin> set [PNone, PStr ''N/A''])"


section \<open>Notions used to state the properties\<close>

text \<open>
  The integer a track carries in a field, 0 when the field is absent (as \<open>track.get(k, 0)\<close>
  reads it), and the tracks whose field is absent or an integer.
\<close>

definition int_field :: "pydict \<Rightarrow> string \<Rightarrow> int" where
  "int_field t k = (case t k of Some (PInt n) \<Rightarrow> n | _ \<Rightarrow> 0)"

definition int_or_absent :: "string \<Rightarrow> pydict \<Rightarrow> bool" where
  "int_or_absent k t = (case t k of None \<Rightarrow> True | Some (PInt n) \<Rightarrow> True | _ \<Rightarrow> False)"

text \<open>
  The duration text as the specification words it: milliseconds to whole seconds, then
  hours, minutes and seconds, printed by the first branch that matches.
\<close>

definition duration_text :: "int \<Rightarrow> string" where
  "duration_text total_ms =
     (let total_seconds = total_ms div 1000;
          hours = total_seconds div 3600;
          minutes = (total_seconds mod 3600) div 60;
          seconds = total_seconds mod 60
      in if hours > 0 then
           str_of_int hours @ ''h '' @ str_of_int minutes @ ''m '' @ str_of_int seconds @ ''s''
         else if minutes > 0 then str_of_int minutes @ ''m '' @ str_of_int seconds @ ''s''
         else str_of_int seconds @ ''s'')"

text \<open>The arithmetic mean of a list of integers, as a rational number.\<close>

definition arithmetic_mean :: "int list \<Rightarrow> rat" where
  "arithmetic_mean ns = of_int (sum_list ns) / of_nat (length ns)"





text \<open>
  The fields of the canonical record. \<open>plain_fields\<close> lists, for each field that is copied
  from the raw record or defaulted, its canonical name, the raw name it is read from and
  the default; \<open>artists\<close> and \<open>date_added\<close> are computed. \<open>stable_fields\<close> are the fields
  that have the same name in the raw and in the canonical record.
\<close>

definition audio_feature_fields :: "string list" where
  "audio_feature_fields =
     [''danceability'', ''energy'', ''valence'', ''tempo'', ''acousticness'', ''instrumentalness'',
      ''liveness'', ''speechiness'', ''loudness'', ''key'', ''mode'', ''time_signature'']"

definition canonical_fields :: "string list" where
  "canonical_fields =
     [''track_name'', ''artists'', ''album_name'', ''duration'', ''duration_ms'', ''date_added'',
      ''release_year'', ''popularity'', ''explicit'', ''streams'', ''track_number'']
     @ audio_feature_fields"

definition plain_fields :: "(string \<times> string \<times> pyval) list" where
  "plain_fields =
     [(''track_name'', ''name'', PStr ''Unknown''),
      (''album_name'', ''album_name'', PStr ''Unknown Album''),
      (''duration'', ''duration_formatted'', PStr ''0:00''),
      (''duration_ms'', ''duration_ms'', PInt 0),
      (''release_year'', ''release_year'', PStr ''Unknown''),
      (''popularity'', ''popularity'', PInt 0),
      (''explicit'', ''explicit'', PBool False),
      (''streams'', ''streams'', PStr ''N/A''),
      (''track_number'', ''track_number'', PInt 0)]
     @ map (\<lambda>k. (k, k, PStr ''N/A'')) audio_feature_fields"

text \<open>A field of the result of a normalization: \<open>None\<close> when the normalization raised
  or the field is absent.\<close>

definition field_of :: "py_error + pydict \<Rightarrow> string \<Rightarrow> pyval option" where
  "field_of r k = (case r of Inl e \<Rightarrow> None | Inr c \<Rightarrow> c k)"

text \<open>The second track of the end-to-end scenario of the specification, and its
  canonical record.\<close>

definition example_raw :: pydict where
  "example_raw =
     [''name'' \<mapsto> PStr ''B'', ''artists'' \<mapsto> PList [PStr ''Y'', PStr ''Z''],
      ''album_name'' \<mapsto> PStr ''Alb2'', ''duration_ms'' \<mapsto> PInt 100000,
      ''popularity'' \<mapsto> PInt 80, ''explicit'' \<mapsto> PBool True]"

definition example_canonical :: pydict where
  "example_canonical = map_of [
     (''track_name'', PStr ''B''),
     (''artists'', PStr ''Y, Z''),
     (''album_name'', PStr ''Alb2''),
     (''duration'', PStr ''0:00''),
     (''duration_ms'', PInt 100000),
     (''date_added'', PStr ''Unknown''),
     (''release_year'', PStr ''Unknown''),
     (''popularity'', PInt 80),
     (''explicit'', PBool True),
     (''streams'', PStr ''N/A''),
     (''track_number'', PInt 0),
     (''danceability'', PStr ''N/A''),
     (''energy'', PStr ''N/A''),
     (''valence'', PStr ''N/A''),
     (''tempo'', PStr ''N/A''),
     (''acousticness'', PStr ''N/A''),
     (''instrumentalness'', PStr ''N/A''),
     (''liveness'', PStr ''N/A''),
     (''speechiness'', PStr ''N/A''),
     (''loudness'', PStr ''N/A''),
     (''key'', PStr ''N/A''),
     (''mode'', PStr ''N/A''),
     (''time_signature'', PStr ''N/A'')]"

definition stable_fields :: "string list" where
  "stable_fields =
     [''album_name'', ''duration_ms'', ''release_year'', ''popularity'', ''explicit'', ''streams'',
      ''track_number''] @ audio_feature_fields"

section \<open>Properties of \<open>process_tracks\<close>\<close>

text \<open>The scenario track normalizes to its canonical record; a track whose \<open>artists\<close> is
  \<open>None\<close> raises.\<close>

lemma standardize_example_raw: "standardize_track fromisoformat example_raw = Inr example_canonical"
  by (simp add: standardize_track_def example_raw_def example_canonical_def dict_get_def
      format_date_def)

lemma standardize_track_artists_None:
  "standardize_track fromisoformat [''name'' \<mapsto> PStr ''bad'', ''artists'' \<mapsto> PNone] = Inl TypeError"
  by (simp add: standardize_track_def dict_get_def)

text \<open>The loop appends to its two accumulators: the records of the tracks that
  normalize, and one warning for each track that raises, both in the order of the input.\<close>

lemma process_tracks_loop_eq:
  "process_tracks_loop fromisoformat ts acc lg =
     (acc @ List.map_filter (\<lambda>t. case standardize_track fromisoformat t of Inr c \<Rightarrow> Some c | Inl e \<Rightarrow> None) ts,
      lg @ List.map_filter (\<lambda>t. case standardize_track fromisoformat t of
                Inr c \<Rightarrow> None
              | Inl e \<Rightarrow> Some (LogWarning (dict_get t ''name'' (PStr ''Unknown'')) e)) ts)"
  by (induction ts arbitrary: acc lg) (auto simp: List.map_filter_simps split: sum.splits)

text \<open>
  Claim C6. For every sequence of raw tracks, \<open>process_tracks\<close> returns (it is a total
  function of the sequence: a fault of \<open>_standardize_track\<close> is caught inside the loop).
  Its result is the list of the canonical records of exactly the tracks whose
  normalization does not raise, in input order; each track whose normalization raises
  is skipped and leaves one warning in the log, and the tracks after it are still
  processed. The log ends with the count of processed tracks.
\<close>

theorem process_tracks_skips_faulting:
  "process_tracks fromisoformat ts p =
     (List.map_filter (\<lambda>t. case standardize_track fromisoformat t of Inr c \<Rightarrow> Some c | Inl e \<Rightarrow> None) ts,
      List.map_filter (\<lambda>t. case standardize_track fromisoformat t of
                Inr c \<Rightarrow> None
              | Inl e \<Rightarrow> Some (LogWarning (dict_get t ''name'' (PStr ''Unknown'')) e)) ts
      @ [LogInfo (length (List.map_filter
            (\<lambda>t. case standardize_track fromisoformat t of Inr c \<Rightarrow> Some c | Inl e \<Rightarrow> None) ts))])"
  by (simp add: process_tracks_def process_tracks_loop_eq)

theorem process_tracks_witness:
  "process_tracks (\<lambda>s. None) [example_raw, [''name'' \<mapsto> PStr ''bad'', ''artists'' \<mapsto> PNone], example_raw] Map.empty
     = ([example_canonical, example_canonical], [LogWarning (PStr ''bad'') TypeError, LogInfo 2])"
  using process_tracks_skips_faulting[of "\<lambda>s. None"
      "[example_raw, [''name'' \<mapsto> PStr ''bad'', ''artists'' \<mapsto> PNone], example_raw]" Map.empty]
  by (simp add: List.map_filter_simps standardize_example_raw standardize_track_artists_None
      dict_get_def)

text \<open>
  Claim C10. The result of \<open>process_tracks\<close> (the canonical records, and the log as well)
  does not depend on the playlist argument: any two playlists give the same result on
  the same tracks.
\<close>

theorem process_tracks_ignores_playlist:
  "process_tracks fromisoformat tracks_data p1 = process_tracks fromisoformat tracks_data p2"
  by (simp add: process_tracks_def)

section \<open>Properties of the rounding to a double\<close>
















section \<open>Properties of the aggregate functions\<close>

lemma py_sum_from_ints:
  "py_sum_from (NInt a) (map PInt ns) = Inr (NInt (a + sum_list ns))"
  by (induction ns arbitrary: a) (simp_all add: add.assoc)

lemma dict_get_int_field:
  "int_or_absent k t \<Longrightarrow> dict_get t k (PInt 0) = PInt (int_field t k)"
  by (auto simp: int_or_absent_def dict_get_def int_field_def split: option.splits pyval.splits)

lemma py_sum_int_fields:
  assumes "list_all (int_or_absent k) tracks"
  shows "py_sum (map (\<lambda>t. dict_get t k (PInt 0)) tracks)
           = Inr (NInt (\<Sum>t\<leftarrow>tracks. int_field t k))"
proof -
  have eq: "map (\<lambda>t. dict_get t k (PInt 0)) tracks = map PInt (map (\<lambda>t. int_field t k) tracks)"
    using assms by (simp add: list_all_iff dict_get_int_field)
  show ?thesis
    unfolding py_sum_def eq
    using py_sum_from_ints[of 0 "map (\<lambda>t. int_field t k) tracks"] by simp
qed

lemma str_of_int_digits: "str_of_int 0 = ''0''" "str_of_int 1 = ''1''" "str_of_int 5 = ''5''"
  by (simp_all add: str_of_int_def str_of_nat.simps digit_char_def)

lemma duration_text_examples:
  "duration_text 0 = ''0s''" "duration_text 65000 = ''1m 5s''"
  "duration_text 3665000 = ''1h 1m 5s''"
  by (simp_all add: duration_text_def str_of_int_digits)

lemma calculate_total_duration_ints:
  "list_all (int_or_absent ''duration_ms'') tracks \<Longrightarrow>
   calculate_total_duration repr tracks
     = Inr (duration_text (\<Sum>t\<leftarrow>tracks. int_field t ''duration_ms''))"
  using py_sum_int_fields[of "''duration_ms''" tracks]
  by (simp add: calculate_total_duration_def duration_text_def Let_def)

text \<open>
  Claim C3. For every track sequence whose \<open>duration_ms\<close> fields are integers or absent
  (absent counts as 0), \<open>calculate_total_duration\<close> returns the duration text of the sum
  of the fields: whole seconds, then hours, minutes and seconds, printed by the first
  matching branch. A total of 0 ms gives \<open>0s\<close>, of 65000 ms \<open>1m 5s\<close>, of 3665000 ms
  \<open>1h 1m 5s\<close>, and the empty sequence gives \<open>0s\<close>.
\<close>

theorem calculate_total_duration_correct:
  "(list_all (int_or_absent ''duration_ms'') tracks \<longrightarrow>
      calculate_total_duration repr tracks
        = Inr (duration_text (\<Sum>t\<leftarrow>tracks. int_field t ''duration_ms''))
      \<and> ((\<Sum>t\<leftarrow>tracks. int_field t ''duration_ms'') = 0 \<longrightarrow>
            calculate_total_duration repr tracks = Inr ''0s'')
      \<and> ((\<Sum>t\<leftarrow>tracks. int_field t ''duration_ms'') = 65000 \<longrightarrow>
            calculate_total_duration repr tracks = Inr ''1m 5s'')
      \<and> ((\<Sum>t\<leftarrow>tracks. int_field t ''duration_ms'') = 3665000 \<longrightarrow>
            calculate_total_duration repr tracks = Inr ''1h 1m 5s''))
   \<and> calculate_total_duration repr [] = Inr ''0s''"
proof -
  have "calculate_total_duration repr [] = Inr ''0s''"
    using calculate_total_duration_ints[of "[]" repr] duration_text_examples by simp
  then show ?thesis
    using calculate_total_duration_ints[of tracks repr] duration_text_examples by auto
qed

theorem calculate_total_duration_witness:
  "calculate_total_duration (\<lambda>v. [])
     [[''name'' \<mapsto> PStr ''A'', ''duration_ms'' \<mapsto> PInt 200000], [''name'' \<mapsto> PStr ''gap''],
      [''name'' \<mapsto> PStr ''B'', ''duration_ms'' \<mapsto> PInt 3465000]] = Inr ''1h 1m 5s''"
  using calculate_total_duration_correct[of
     "[[''name'' \<mapsto> PStr ''A'', ''duration_ms'' \<mapsto> PInt 200000], [''name'' \<mapsto> PStr ''gap''],
      [''name'' \<mapsto> PStr ''B'', ''duration_ms'' \<mapsto> PInt 3465000]]" "\<lambda>v. []"]
  by (simp add: int_or_absent_def int_field_def duration_text_examples)

lemma average_popularity_ints:
  "tracks \<noteq> [] \<Longrightarrow> list_all (int_or_absent ''popularity'') tracks \<Longrightarrow>
   average_popularity tracks
     = (case round_to_double (arithmetic_mean (map (\<lambda>t. int_field t ''popularity'') tracks)) of
          Some d \<Rightarrow> Inr (NFloat (Finite d))
        | None \<Rightarrow> Inl OverflowError)"
  using py_sum_int_fields[of "''popularity''" tracks]
  by (simp add: average_popularity_def num_truediv_def arithmetic_mean_def)






section \<open>Properties of the date normalization\<close>

















lemma match_format_head:
  assumes "directive_alts f s acc = (acc', rest) # others"
    and "match_format fs rest acc' = Some r"
  shows "match_format (f # fs) s acc = Some r"
  using assms by simp






















section \<open>Properties of the normalization of a track\<close>

lemma str_items_strs: "str_items (map PStr names) = Inr names"
  by (induction names) simp_all

lemma length_canonical_fields: "length canonical_fields = 23 \<and> distinct canonical_fields"
  by (simp add: canonical_fields_def audio_feature_fields_def)

lemma standardize_track_Inr:
  assumes "py_join '', '' (dict_get t ''artists'' (PList [PStr ''Unknown Artist''])) = Inr a"
  shows "\<exists>c. standardize_track fromisoformat t = Inr c
     \<and> dom c = set canonical_fields
     \<and> (\<forall>(ck, rk, dflt) \<in> set plain_fields. c ck = Some (dict_get t rk dflt))
     \<and> c ''artists'' = Some (PStr a)
     \<and> c ''date_added'' = Some (format_date fromisoformat (dict_get t ''added_at'' (PStr [])))"
  using assms
  by (simp add: standardize_track_def dom_map_of_conv_image_fst canonical_fields_def
      audio_feature_fields_def plain_fields_def insert_commute)

text \<open>
  Claim C1, amended. For every raw track whose \<open>artists\<close> field is absent or a list of
  strings, \<open>_standardize_track\<close> returns a canonical record with exactly the 23 fields.
  A field that is absent in the raw record gets the default of the table; a field that
  is present is copied as it is, also when its value is \<open>None\<close> or a float with more than
  three decimals (nothing is rounded here). \<open>artists\<close> is the list joined by \<open>", "\<close>
  (\<open>Unknown Artist\<close> when absent) and \<open>date_added\<close> is the normalized \<open>added_at\<close>
  (\<open>Unknown\<close> when absent).
\<close>

theorem standardize_track_defaults:
  assumes "t ''artists'' = map_option (\<lambda>names. PList (map PStr names)) artists"
  shows "\<exists>c. standardize_track fromisoformat t = Inr c
     \<and> dom c = set canonical_fields \<and> length canonical_fields = 23 \<and> distinct canonical_fields
     \<and> (\<forall>(ck, rk, dflt) \<in> set plain_fields.
           c ck = Some (case t rk of None \<Rightarrow> dflt | Some v \<Rightarrow> v))
     \<and> c ''artists''
         = Some (PStr (case artists of None \<Rightarrow> ''Unknown Artist''
                                   | Some names \<Rightarrow> join_strs '', '' names))
     \<and> c ''date_added''
         = Some (case t ''added_at'' of None \<Rightarrow> PStr ''Unknown'' | Some v \<Rightarrow> format_date fromisoformat v)"
proof -
  have j: "py_join '', '' (dict_get t ''artists'' (PList [PStr ''Unknown Artist'']))
      = Inr (case artists of None \<Rightarrow> ''Unknown Artist'' | Some names \<Rightarrow> join_strs '', '' names)"
    using assms by (cases artists) (simp_all add: dict_get_def str_items_strs)
  have d: "format_date fromisoformat (case t ''added_at'' of None \<Rightarrow> PStr [] | Some v \<Rightarrow> v)
      = (case t ''added_at'' of None \<Rightarrow> PStr ''Unknown'' | Some v \<Rightarrow> format_date fromisoformat v)"
    by (simp add: format_date_def split: option.splits)
  show ?thesis
    using standardize_track_Inr[OF j, of fromisoformat] length_canonical_fields unfolding dict_get_def d by blast
qed

theorem standardize_track_defaults_witness:
  "\<exists>c. standardize_track (\<lambda>s. None) [''name'' \<mapsto> PStr ''B'', ''artists'' \<mapsto> PList [PStr ''Y'', PStr ''Z''],
            ''added_at'' \<mapsto> PStr ''05/12/2023'', ''popularity'' \<mapsto> PNone] = Inr c
     \<and> c ''track_name'' = Some (PStr ''B'')
     \<and> c ''artists'' = Some (PStr ''Y, Z'')
     \<and> c ''album_name'' = Some (PStr ''Unknown Album'')
     \<and> c ''popularity'' = Some PNone
     \<and> c ''tempo'' = Some (PStr ''N/A'')
     \<and> c ''date_added'' = Some (format_date (\<lambda>s. None) (PStr ''05/12/2023''))"
  using standardize_track_defaults[of
      "[''name'' \<mapsto> PStr ''B'', ''artists'' \<mapsto> PList [PStr ''Y'', PStr ''Z''],
        ''added_at'' \<mapsto> PStr ''05/12/2023'', ''popularity'' \<mapsto> PNone]" "Some [''Y'', ''Z'']"
      "\<lambda>s. None"]
  by (auto simp: plain_fields_def audio_feature_fields_def)

text \<open>
  The claim as stated fails: a raw \<open>release_year\<close> of \<open>None\<close> (what the extractor stores when
  the album has no release date) stays \<open>None\<close> in the canonical record; the float 0.123456
  is kept with all its decimals, where rounding to three gives 0.123; and a raw \<open>artists\<close>
  of \<open>None\<close> raises TypeError, so there is no canonical record at all.
\<close>

theorem standardize_track_null_counterexample:
  "field_of (standardize_track (\<lambda>s. None) [''name'' \<mapsto> PStr ''A'', ''release_year'' \<mapsto> PNone]) ''release_year''
     = Some PNone
   \<and> field_of (standardize_track (\<lambda>s. None) [''name'' \<mapsto> PStr ''A'', ''danceability'' \<mapsto> PFloat (123456 / 1000000)])
       ''danceability'' = Some (PFloat (123456 / 1000000))
   \<and> round3 (123456 / 1000000) = 123 / 1000
   \<and> standardize_track (\<lambda>s. None) [''name'' \<mapsto> PStr ''A'', ''artists'' \<mapsto> PNone] = Inl TypeError"
proof -
  have "round3 (123456 / 1000000) = 123 / 1000"
    by code_simp
  then show ?thesis
    by (simp add: field_of_def standardize_track_def dict_get_def)
qed

text \<open>
  Claim C4, amended. Normalizing a canonical record again does not raise and gives a
  canonical record with the 23 fields. The fields read under their own name (album_name,
  duration_ms, release_year, popularity, explicit, streams, track_number and the twelve
  audio features) are unchanged. \<open>track_name\<close>, \<open>duration\<close> and \<open>date_added\<close> fall back to
  their defaults, because the raw record is read under \<open>name\<close>, \<open>duration_formatted\<close> and
  \<open>added_at\<close>; \<open>artists\<close>, now a string, is joined again character by character.
\<close>

theorem restandardize_canonical:
  assumes "standardize_track fromisoformat t = Inr c"
  shows "\<exists>c' a. standardize_track fromisoformat c = Inr c'
     \<and> dom c' = set canonical_fields
     \<and> (\<forall>k \<in> set stable_fields. c' k = c k)
     \<and> c' ''track_name'' = Some (PStr ''Unknown'')
     \<and> c' ''duration'' = Some (PStr ''0:00'')
     \<and> c' ''date_added'' = Some (PStr ''Unknown'')
     \<and> c ''artists'' = Some (PStr a)
     \<and> c' ''artists'' = Some (PStr (join_strs '', '' (map (\<lambda>x. [x]) a)))"
proof -
  obtain a where a: "py_join '', '' (dict_get t ''artists'' (PList [PStr ''Unknown Artist''])) = Inr a"
    using assms by (auto simp: standardize_track_def split: sum.splits)
  have c: "c = map_of [
          (''track_name'', dict_get t ''name'' (PStr ''Unknown'')),
          (''artists'', PStr a),
          (''album_name'', dict_get t ''album_name'' (PStr ''Unknown Album'')),
          (''duration'', dict_get t ''duration_formatted'' (PStr ''0:00'')),
          (''duration_ms'', dict_get t ''duration_ms'' (PInt 0)),
          (''date_added'', format_date fromisoformat (dict_get t ''added_at'' (PStr []))),
          (''release_year'', dict_get t ''release_year'' (PStr ''Unknown'')),
          (''popularity'', dict_get t ''popularity'' (PInt 0)),
          (''explicit'', dict_get t ''explicit'' (PBool False)),
          (''streams'', dict_get t ''streams'' (PStr ''N/A'')),
          (''track_number'', dict_get t ''track_number'' (PInt 0)),
          (''danceability'', dict_get t ''danceability'' (PStr ''N/A'')),
          (''energy'', dict_get t ''energy'' (PStr ''N/A'')),
          (''valence'', dict_get t ''valence'' (PStr ''N/A'')),
          (''tempo'', dict_get t ''tempo'' (PStr ''N/A'')),
          (''acousticness'', dict_get t ''acousticness'' (PStr ''N/A'')),
          (''instrumentalness'', dict_get t ''instrumentalness'' (PStr ''N/A'')),
          (''liveness'', dict_get t ''liveness'' (PStr ''N/A'')),
          (''speechiness'', dict_get t ''speechiness'' (PStr ''N/A'')),
          (''loudness'', dict_get t ''loudness'' (PStr ''N/A'')),
          (''key'', dict_get t ''key'' (PStr ''N/A'')),
          (''mode'', dict_get t ''mode'' (PStr ''N/A'')),
          (''time_signature'', dict_get t ''time_signature'' (PStr ''N/A''))]"
    using assms a by (simp add: standardize_track_def)
  have ca: "c ''artists'' = Some (PStr a)" and cn: "c ''name'' = None"
    and cd: "c ''duration_formatted'' = None" and cad: "c ''added_at'' = None"
    by (simp_all add: c)
  have j: "py_join '', '' (dict_get c ''artists'' (PList [PStr ''Unknown Artist'']))
      = Inr (join_strs '', '' (map (\<lambda>x. [x]) a))"
    by (simp add: dict_get_def ca)
  obtain c' where c': "standardize_track fromisoformat c = Inr c'" "dom c' = set canonical_fields"
      "\<forall>(ck, rk, dflt) \<in> set plain_fields. c' ck = Some (dict_get c rk dflt)"
      "c' ''artists'' = Some (PStr (join_strs '', '' (map (\<lambda>x. [x]) a)))"
      "c' ''date_added'' = Some (format_date fromisoformat (dict_get c ''added_at'' (PStr [])))"
    using standardize_track_Inr[OF j, of fromisoformat] by blast
  have s: "\<forall>k \<in> set stable_fields. c' k = c k"
    using c'(3) by (simp add: plain_fields_def stable_fields_def audio_feature_fields_def dict_get_def c)
  have n: "c' ''track_name'' = Some (PStr ''Unknown'')" "c' ''duration'' = Some (PStr ''0:00'')"
    using c'(3) by (simp_all add: plain_fields_def dict_get_def cn cd)
  have d: "c' ''date_added'' = Some (PStr ''Unknown'')"
    using c'(5) by (simp add: dict_get_def cad format_date_def)
  show ?thesis using c'(1,2,4) s n d ca by blast
qed

theorem restandardize_witness:
  "\<exists>c'. standardize_track (\<lambda>s. None) example_canonical = Inr c'
     \<and> c' ''track_name'' = Some (PStr ''Unknown'')
     \<and> c' ''album_name'' = Some (PStr ''Alb2'')
     \<and> c' ''popularity'' = Some (PInt 80)
     \<and> c' ''artists'' = Some (PStr ''Y, ,,  , Z'')"
proof -
  obtain c' a where c': "standardize_track (\<lambda>s. None) example_canonical = Inr c'"
      "\<forall>k \<in> set stable_fields. c' k = example_canonical k"
      "c' ''track_name'' = Some (PStr ''Unknown'')"
      "example_canonical ''artists'' = Some (PStr a)"
      "c' ''artists'' = Some (PStr (join_strs '', '' (map (\<lambda>x. [x]) a)))"
    using restandardize_canonical[OF standardize_example_raw[of "\<lambda>s. None"]] by blast
  have a: "a = ''Y, Z''"
    using c'(4) by (simp add: example_canonical_def)
  have "c' ''album_name'' = Some (PStr ''Alb2'')" "c' ''popularity'' = Some (PInt 80)"
    using c'(2) by (simp_all add: stable_fields_def example_canonical_def)
  moreover have "c' ''artists'' = Some (PStr ''Y, ,,  , Z'')"
    using c'(5) unfolding a by simp
  ultimately show ?thesis using c'(1,3) by blast
qed

text \<open>
  The claim as stated fails on the canonical record of the scenario track: normalizing it
  again turns its \<open>track_name\<close> from \<open>B\<close> into \<open>Unknown\<close>.
\<close>

theorem idempotence_counterexample:
  "standardize_track (\<lambda>s. None) example_raw = Inr example_canonical
   \<and> standardize_track (\<lambda>s. None) example_canonical \<noteq> Inr example_canonical
   \<and> field_of (standardize_track (\<lambda>s. None) example_canonical) ''track_name'' = Some (PStr ''Unknown'')
   \<and> field_of (Inr example_canonical) ''track_name'' = Some (PStr ''B'')"
proof -
  have 1: "field_of (standardize_track (\<lambda>s. None) example_canonical) ''track_name'' = Some (PStr ''Unknown'')"
    by (simp add: field_of_def standardize_track_def example_canonical_def dict_get_def)
  have 2: "field_of (Inr example_canonical) ''track_name'' = Some (PStr ''B'')"
    by (simp add: field_of_def example_canonical_def)
  have "standardize_track (\<lambda>s. None) example_canonical \<noteq> Inr example_canonical"
    using 1 2 by auto
  then show ?thesis using 1 2 standardize_example_raw by simp
qed


section \<open>Properties of the summary counts\<close>

text \<open>
  Claim C7. The claim says that the summary counts the tracks with a known release year
  and the tracks that carry audio features. On canonical records the code does not: it
  counts a track when its \<open>release_year\<close> is truthy and when its \<open>danceability\<close> is not
  \<open>None\<close>, and the defaults \<open>Unknown\<close> and \<open>N/A\<close> of a canonical record pass both tests.
  For the canonical record of the scenario track, which has neither a release year nor
  audio features, both counts are 1, where the test of the Excel summary
  (\<open>not in [None, 'N/A']\<close>) counts 0.
\<close>

theorem summary_counts_defaults:
  "field_of (Inr example_canonical) ''release_year'' = Some (PStr ''Unknown'')
   \<and> field_of (Inr example_canonical) ''danceability'' = Some (PStr ''N/A'')
   \<and> map_sum id tracks_with_release_year (get_data_summary repr playlist [example_canonical]) = Inr 1
   \<and> map_sum id tracks_with_audio_features (get_data_summary repr playlist [example_canonical]) = Inr 1
   \<and> length (filter has_real_danceability [example_canonical]) = 0"
proof -
  have d: "calculate_total_duration repr [example_canonical] = Inr (duration_text 100000)"
    using calculate_total_duration_ints[of "[example_canonical]" repr]
    by (simp add: int_or_absent_def int_field_def example_canonical_def)
  have r: "round_to_double 80 = Some 80"
    by code_simp
  have p: "average_popularity [example_canonical] = Inr (NFloat (Finite 80))"
    using average_popularity_ints[of "[example_canonical]"]
    by (simp add: int_or_absent_def int_field_def example_canonical_def arithmetic_mean_def r)
  show ?thesis
    unfolding get_data_summary_def d p
    by (simp add: field_of_def dict_get_def example_canonical_def has_real_danceability_def)
qed

section \<open>Properties of the CSV metadata header\<close>

text \<open>
  Claim C5. The claim says that the metadata header is quoted by the standard rule, so
  that a standard reader recovers the name and the description. The code pastes the
  values into the lines: for the name \<open>Rock, Pop\<close> the line is \<open>Name,Rock, Pop\<close>, which
  reads back as three fields, and for the description \<open>say "hi"\<close> the line reads back as
  \<open>say hi""\<close>. The writer's rule, which the track rows use, gives lines that read back
  as the values.
\<close>

theorem csv_metadata_not_quoted:
  "text_lines (create_csv_metadata repr
      [''name'' \<mapsto> PStr ''Rock, Pop'', ''description'' \<mapsto> PStr (''say '' @ [dquote] @ ''hi'' @ [dquote])]
      tracks now) ! 1 = ''Name,Rock, Pop''
   \<and> csv_read_line ''Name,Rock, Pop'' = [''Name'', ''Rock'', '' Pop'']
   \<and> csv_read_line (''Name,'' @ csv_quote_field ''Rock, Pop'') = [''Name'', ''Rock, Pop'']
   \<and> text_lines (create_csv_metadata repr
      [''name'' \<mapsto> PStr ''Rock, Pop'', ''description'' \<mapsto> PStr (''say '' @ [dquote] @ ''hi'' @ [dquote])]
      tracks now) ! 2 = ''Description,'' @ [dquote] @ ''say '' @ [dquote] @ ''hi'' @ [dquote, dquote]
   \<and> csv_read_line (''Description,'' @ [dquote] @ ''say '' @ [dquote] @ ''hi'' @ [dquote, dquote])
       = [''Description'', ''say hi'' @ [dquote, dquote]]
   \<and> csv_read_line (''Description,'' @ csv_quote_field (''say '' @ [dquote] @ ''hi'' @ [dquote]))
       = [''Description'', ''say '' @ [dquote] @ ''hi'' @ [dquote]]"
  by (simp add: text_lines_def create_csv_metadata_def dict_get_def newline_def dquote_def
      csv_read_line_def csv_quote_field_def)

section \<open>Properties of the Audio Features sheet\<close>







end
